theory Spec2Isabelle
  imports Complex_Main "HOL-Library.Word"
begin

unbundle bit_operations_syntax

section \<open>JavaScript values\<close>

text \<open>
  The light component of \<^verbatim>\<open>src/framework/components/light/component.js\<close> stores
  arbitrary JavaScript values under property names and compares them with \<^verbatim>\<open>===\<close>.
  A number is a double: \<open>NaN\<close>, the two infinities, or a finite value. Finite values are
  read as reals, so the two signed zeros are one value (they are \<^verbatim>\<open>===\<close> and both
  falsy) and the rounding of double arithmetic is left out. An object is its reference.
\<close>

datatype jsnum = NaN | PosInf | NegInf | Fin real

datatype jsval = JUndefined | JNull | JBool bool | JNum jsnum | JStr string | JObj nat

text \<open>\<^verbatim>\<open>a === b\<close>: equal primitives or the same reference, and \<open>NaN\<close> equals nothing.\<close>

definition strict_eq :: "jsval \<Rightarrow> jsval \<Rightarrow> bool" where
  "strict_eq a b = (a = b \<and> a \<noteq> JNum NaN)"

text \<open>The truth value a condition \<^verbatim>\<open>if (v)\<close> takes.\<close>

fun truthy :: "jsval \<Rightarrow> bool" where
  "truthy JUndefined = False"
| "truthy JNull = False"
| "truthy (JBool b) = b"
| "truthy (JNum n) = (n \<noteq> NaN \<and> n \<noteq> Fin 0)"
| "truthy (JStr s) = (s \<noteq> [])"
| "truthy (JObj a) = True"

text \<open>The product of two numbers (\<^verbatim>\<open>*\<close>).\<close>

fun js_times :: "jsnum \<Rightarrow> jsnum \<Rightarrow> jsnum" where
  "js_times NaN y = NaN"
| "js_times x NaN = NaN"
| "js_times (Fin a) (Fin b) = Fin (a * b)"
| "js_times (Fin a) PosInf = (if a = 0 then NaN else if 0 < a then PosInf else NegInf)"
| "js_times (Fin a) NegInf = (if a = 0 then NaN else if 0 < a then NegInf else PosInf)"
| "js_times PosInf (Fin b) = (if b = 0 then NaN else if 0 < b then PosInf else NegInf)"
| "js_times NegInf (Fin b) = (if b = 0 then NaN else if 0 < b then NegInf else PosInf)"
| "js_times PosInf PosInf = PosInf"
| "js_times PosInf NegInf = NegInf"
| "js_times NegInf PosInf = NegInf"
| "js_times NegInf NegInf = PosInf"

text \<open>
  \<open>ToInt32\<close>, which the operators \<^verbatim>\<open>|\<close>, \<^verbatim>\<open>&\<close> and \<^verbatim>\<open>~\<close> apply to their
  operands: truncate towards zero, then wrap to 32 bits. The result of such an operator is
  the number that the 32 bits denote in two's complement.
\<close>

fun to_int32 :: "jsnum \<Rightarrow> 32 word" where
  "to_int32 (Fin r) = word_of_int (if r < 0 then - \<lfloor>- r\<rfloor> else \<lfloor>r\<rfloor>)"
| "to_int32 n = 0"

definition of_int32 :: "32 word \<Rightarrow> jsnum" where
  "of_int32 w = Fin (real_of_int (sint w))"

section \<open>The rendering handle and the names the file takes from outside\<close>

text \<open>
  Modelled from the spec: the rendering handle (\<^verbatim>\<open>pc.Light\<close>, not part of this file) is
  an object with a mutable \<open>mask\<close> field, an enabled flag and a field
  \<open>shadowUpdateMode\<close>; its setters are observed through the calls made on it.
\<close>

record light =
  light_mask :: jsval
  light_enabled :: bool
  light_shadowUpdateMode :: jsval

text \<open>
  What the file reads from its surroundings and does not define: the constants of the
  \<^verbatim>\<open>pc\<close> namespace (the three mask constants as the 32 bits the bit operators see),
  the colour object \<^verbatim>\<open>new pc.Color(1, 1, 1)\<close> created once when the properties are
  defined, the handle that the factory of the system builds for a light type, and the
  number that \<open>ToNumber\<close> gives for a string and for an object.
\<close>

record env =
  MASK_DYNAMIC :: "32 word"
  MASK_BAKED :: "32 word"
  MASK_LIGHTMAP :: "32 word"
  LIGHTFALLOFF_LINEAR :: jsval
  SHADOW_DEPTH :: jsval
  BLUR_GAUSSIAN :: jsval
  SHADOWUPDATE_REALTIME :: jsval
  Color_1_1_1 :: jsval
  new_light :: "jsval \<Rightarrow> light"
  str_to_number :: "string \<Rightarrow> jsnum"
  obj_to_number :: "nat \<Rightarrow> jsnum"

fun to_number :: "env \<Rightarrow> jsval \<Rightarrow> jsnum" where
  "to_number e JUndefined = NaN"
| "to_number e JNull = Fin 0"
| "to_number e (JBool b) = Fin (if b then 1 else 0)"
| "to_number e (JNum n) = n"
| "to_number e (JStr s) = str_to_number e s"
| "to_number e (JObj a) = obj_to_number e a"

section \<open>The registry of properties\<close>

text \<open>
  One constructor for each function that \<^verbatim>\<open>_defineProps\<close> passes as \<open>setFunc\<close>,
  named after the property it is written for.
\<close>

datatype setFunc =
    On_enabled | On_type | On_color | On_intensity | On_castShadows | On_shadowDistance
  | On_shadowResolution | On_shadowBias | On_normalOffsetBias | On_range
  | On_innerConeAngle | On_outerConeAngle | On_falloffMode | On_shadowType
  | On_vsmBlurSize | On_vsmBlurMode | On_vsmBias | On_cookie | On_cookieIntensity
  | On_cookieFalloff | On_cookieChannel | On_shadowUpdateMode | On_mask
  | On_affectDynamic | On_affectLightmapped | On_bake

text \<open>
  The arrays \<^verbatim>\<open>_props\<close> and \<^verbatim>\<open>_propsDefault\<close>, and the accessors that
  \<^verbatim>\<open>Object.defineProperty\<close> has put on the prototype: for a name, the \<open>setFunc\<close>
  its accessor closes over (\<open>None\<close> when \<^verbatim>\<open>_defineProperty\<close> got none).
\<close>

record registry =
  props :: "string list"
  propsDefault :: "jsval list"
  accessors :: "string \<rightharpoonup> setFunc option"

definition no_props :: registry where
  "no_props = \<lparr>props = [], propsDefault = [], accessors = Map.empty\<rparr>"

text \<open>
  \<^verbatim>\<open>_defineProperty(name, defaultValue, setFunc)\<close>: two pushes and one
  \<^verbatim>\<open>Object.defineProperty\<close>, which replaces an accessor of the same name (every
  accessor defined here is configurable).
\<close>

definition defineProperty :: "string \<Rightarrow> jsval \<Rightarrow> setFunc option \<Rightarrow> registry \<Rightarrow> registry" where
  "defineProperty name defaultValue setFunc r =
     r\<lparr>props := props r @ [name],
       propsDefault := propsDefault r @ [defaultValue],
       accessors := (accessors r)(name \<mapsto> setFunc)\<rparr>"

text \<open>\<^verbatim>\<open>_defineProps()\<close>: the calls of \<^verbatim>\<open>_defineProperty\<close>, in the order of the file.\<close>

definition defineProps_calls :: "env \<Rightarrow> (string \<times> jsval \<times> setFunc option) list" where
  "defineProps_calls e =
    [(''enabled'', JBool True, Some On_enabled),
     (''light'', JNull, None),
     (''type'', JStr ''directional'', Some On_type),
     (''color'', Color_1_1_1 e, Some On_color),
     (''intensity'', JNum (Fin 1), Some On_intensity),
     (''castShadows'', JBool False, Some On_castShadows),
     (''shadowDistance'', JNum (Fin 40), Some On_shadowDistance),
     (''shadowResolution'', JNum (Fin 1024), Some On_shadowResolution),
     (''shadowBias'', JNum (Fin 0.05), Some On_shadowBias),
     (''normalOffsetBias'', JNum (Fin 0), Some On_normalOffsetBias),
     (''range'', JNum (Fin 10), Some On_range),
     (''innerConeAngle'', JNum (Fin 40), Some On_innerConeAngle),
     (''outerConeAngle'', JNum (Fin 45), Some On_outerConeAngle),
     (''falloffMode'', LIGHTFALLOFF_LINEAR e, Some On_falloffMode),
     (''shadowType'', SHADOW_DEPTH e, Some On_shadowType),
     (''vsmBlurSize'', JNum (Fin 11), Some On_vsmBlurSize),
     (''vsmBlurMode'', BLUR_GAUSSIAN e, Some On_vsmBlurMode),
     (''vsmBias'', JNum (Fin (0.01 * 0.25)), Some On_vsmBias),
     (''cookie'', JNull, Some On_cookie),
     (''cookieIntensity'', JNum (Fin 1), Some On_cookieIntensity),
     (''cookieFalloff'', JBool False, Some On_cookieFalloff),
     (''cookieChannel'', JStr ''rgb'', Some On_cookieChannel),
     (''shadowUpdateMode'', SHADOWUPDATE_REALTIME e, Some On_shadowUpdateMode),
     (''mask'', JNum (Fin 1), Some On_mask),
     (''affectDynamic'', JBool True, Some On_affectDynamic),
     (''affectLightmapped'', JBool False, Some On_affectLightmapped),
     (''bake'', JBool False, Some On_bake)]"

definition defineProps :: "env \<Rightarrow> registry" where
  "defineProps e =
     fold (\<lambda>(name, defaultValue, setFunc). defineProperty name defaultValue setFunc)
       (defineProps_calls e) no_props"

section \<open>The component\<close>

text \<open>
  What the component does to objects outside the file is kept in a trace, oldest first:
  the calls of methods of the handle at an address, the calls of functions of the
  framework, and the warnings on the console. \<open>Dispatch name value oldValue\<close> marks the
  call \<^verbatim>\<open>setFunc.call(this, value, oldValue)\<close> in the accessor of \<open>name\<close>.
\<close>

datatype event =
    Dispatch string jsval jsval
  | LightCall nat string "jsval list"
  | Call string "jsval list"
  | ConsoleWarn string

text \<open>
  \<open>data\<close> is \<^verbatim>\<open>this.data\<close>; \<open>own\<close> holds the properties that an assignment
  \<^verbatim>\<open>this[name] = v\<close> creates on the instance when the prototype has no accessor for
  \<open>name\<close>; \<open>entity_enabled\<close> is \<^verbatim>\<open>this.entity.enabled\<close>; \<open>lights\<close> is the store of
  the rendering handles, by address, and \<open>next_light\<close> the address of the next handle
  that is created.
\<close>

record component =
  data :: "string \<rightharpoonup> jsval"
  own :: "string \<rightharpoonup> jsval"
  entity_enabled :: bool
  lights :: "nat \<rightharpoonup> light"
  next_light :: nat
  trace :: "event list"

datatype error = TypeError

text \<open>
  A call returns, throws, or is cut off: \<open>OutOfFuel\<close> stands for a chain of nested
  property assignments deeper than the given bound.
\<close>

datatype 'a outcome = Done 'a | Throw error | OutOfFuel

fun then_do :: "'a outcome \<Rightarrow> ('a \<Rightarrow> 'b outcome) \<Rightarrow> 'b outcome" where
  "then_do (Done x) f = f x"
| "then_do (Throw err) f = Throw err"
| "then_do OutOfFuel f = OutOfFuel"

definition emit :: "event \<Rightarrow> component \<Rightarrow> component" where
  "emit ev this = this\<lparr>trace := trace this @ [ev]\<rparr>"

text \<open>The \<open>get\<close> of the accessor of \<open>name\<close>: \<^verbatim>\<open>this.data[name]\<close>.\<close>

definition data_get :: "component \<Rightarrow> string \<Rightarrow> jsval" where
  "data_get this name = (case data this name of None \<Rightarrow> JUndefined | Some v \<Rightarrow> v)"

text \<open>Reading \<^verbatim>\<open>this[name]\<close>: through the accessor if the prototype has one.\<close>

definition get_prop :: "registry \<Rightarrow> string \<Rightarrow> component \<Rightarrow> jsval" where
  "get_prop r name this =
     (case accessors r name of
        Some sf \<Rightarrow> data_get this name
      | None \<Rightarrow> (case own this name of None \<Rightarrow> JUndefined | Some v \<Rightarrow> v))"

subsection \<open>Using the handle\<close>

text \<open>
  The handle that \<^verbatim>\<open>this.light\<close> refers to, if it is one: \<^verbatim>\<open>this.light\<close> is read
  through its accessor and is \<open>null\<close> by default.
\<close>

definition this_light :: "registry \<Rightarrow> component \<Rightarrow> (nat \<times> light) option" where
  "this_light r this =
     (case get_prop r ''light'' this of
        JObj a \<Rightarrow> (case lights this a of Some l \<Rightarrow> Some (a, l) | None \<Rightarrow> None)
      | v \<Rightarrow> None)"

text \<open>
  \<^verbatim>\<open>this.light.m(args)\<close>: if \<^verbatim>\<open>this.light\<close> is not a handle of the store the call
  throws a \<open>TypeError\<close>, since no other value has the methods of a handle. Otherwise
  the call is recorded and has the effect \<open>upd\<close> on the handle.
\<close>

definition light_call ::
  "registry \<Rightarrow> string \<Rightarrow> jsval list \<Rightarrow> (light \<Rightarrow> light) \<Rightarrow> component \<Rightarrow> component outcome" where
  "light_call r m args upd this =
     (case this_light r this of
        Some (a, l) \<Rightarrow> Done (emit (LightCall a m args) (this\<lparr>lights := (lights this)(a \<mapsto> upd l)\<rparr>))
      | None \<Rightarrow> Throw TypeError)"

text \<open>
  An assignment to a field of \<^verbatim>\<open>this.light\<close>, the new value computed from the handle:
  it throws when \<^verbatim>\<open>this.light\<close> is \<open>null\<close> or \<open>undefined\<close>, changes the handle when
  it is one, and has no effect within the model otherwise (on a primitive value the
  assignment is dropped, and other objects are not part of the state).
\<close>

definition light_assign :: "registry \<Rightarrow> (light \<Rightarrow> light) \<Rightarrow> component \<Rightarrow> component outcome" where
  "light_assign r upd this =
     (case get_prop r ''light'' this of
        JUndefined \<Rightarrow> Throw TypeError
      | JNull \<Rightarrow> Throw TypeError
      | JObj a \<Rightarrow>
          (case lights this a of
             Some l \<Rightarrow> Done (this\<lparr>lights := (lights this)(a \<mapsto> upd l)\<rparr>)
           | None \<Rightarrow> Done this)
      | v \<Rightarrow> Done this)"

text \<open>\<^verbatim>\<open>this.light.mask |= c\<close> and \<^verbatim>\<open>this.light.mask &= ~c\<close>.\<close>

definition mask_or :: "env \<Rightarrow> registry \<Rightarrow> 32 word \<Rightarrow> component \<Rightarrow> component outcome" where
  "mask_or e r c this =
     light_assign r (\<lambda>l. l\<lparr>light_mask := JNum (of_int32 (to_int32 (to_number e (light_mask l)) OR c))\<rparr>) this"

definition mask_and_not :: "env \<Rightarrow> registry \<Rightarrow> 32 word \<Rightarrow> component \<Rightarrow> component outcome" where
  "mask_and_not e r c this =
     light_assign r (\<lambda>l. l\<lparr>light_mask := JNum (of_int32 (to_int32 (to_number e (light_mask l)) AND NOT c))\<rparr>) this"

text \<open>
  Modelled from the spec: \<^verbatim>\<open>setMask(m)\<close> of the handle stores \<open>m\<close> in the field
  \<open>mask\<close>. Here \<^verbatim>\<open>this.light.setMask(this.light.mask)\<close>.
\<close>

definition setMask_of_mask :: "registry \<Rightarrow> component \<Rightarrow> component outcome" where
  "setMask_of_mask r this =
     (case this_light r this of
        Some (a, l) \<Rightarrow> light_call r ''setMask'' [light_mask l] (\<lambda>l'. l'\<lparr>light_mask := light_mask l\<rparr>) this
      | None \<Rightarrow> Throw TypeError)"

subsection \<open>Enabling and disabling\<close>

text \<open>
  \<^verbatim>\<open>onEnable\<close> and \<^verbatim>\<open>onDisable\<close>: the method of the superclass, then
  \<^verbatim>\<open>this.light.setEnabled\<close>. Modelled from the spec: \<^verbatim>\<open>setEnabled\<close> sets the enabled
  flag of the handle, and the methods of the superclass do nothing to the component.
\<close>

definition onEnable :: "registry \<Rightarrow> component \<Rightarrow> component outcome" where
  "onEnable r this =
     light_call r ''setEnabled'' [JBool True] (\<lambda>l. l\<lparr>light_enabled := True\<rparr>)
       (emit (Call ''_super.onEnable'' []) this)"

definition onDisable :: "registry \<Rightarrow> component \<Rightarrow> component outcome" where
  "onDisable r this =
     light_call r ''setEnabled'' [JBool False] (\<lambda>l. l\<lparr>light_enabled := False\<rparr>)
       (emit (Call ''_super.onDisable'' []) this)"

text \<open>
  Modelled from the spec: \<^verbatim>\<open>onSetEnabled(name, oldValue, newValue)\<close> is inherited from
  the component framework and is not in the file. Its section on the lifecycle says that
  a write to \<open>enabled\<close> runs the enable transition when the component and its entity are
  both enabled, and the reverse transition when the component's flag becomes false (the
  entity being enabled, since otherwise the handle is disabled already).
\<close>

definition onSetEnabled :: "registry \<Rightarrow> jsval \<Rightarrow> jsval \<Rightarrow> jsval \<Rightarrow> component \<Rightarrow> component outcome" where
  "onSetEnabled r name oldValue newValue this =
     (let this1 = emit (Call ''onSetEnabled'' [name, oldValue, newValue]) this in
      if entity_enabled this1
      then (if truthy newValue then onEnable r this1 else onDisable r this1)
      else Done this1)"

text \<open>
  Modelled from the spec: \<^verbatim>\<open>this.system.changeType(this, oldValue, newValue)\<close> is a
  method of the component system and is not in the file. It has the factory build a new
  handle for the new type, releases the old handle and makes the new one the handle of
  the instance; the new handle has the configuration the factory gave it.
\<close>

definition changeType :: "env \<Rightarrow> registry \<Rightarrow> jsval \<Rightarrow> jsval \<Rightarrow> component \<Rightarrow> component outcome" where
  "changeType e r oldValue newValue this =
     (let a = next_light this;
          kept = (case data_get this ''light'' of JObj b \<Rightarrow> (lights this)(b := None) | v \<Rightarrow> lights this)
      in Done (emit (Call ''system.changeType'' [oldValue, newValue])
           (this\<lparr>data := (data this)(''light'' \<mapsto> JObj a),
                 lights := kept(a \<mapsto> new_light e newValue),
                 next_light := Suc a\<rparr>)))"

subsection \<open>The functions given to \<^verbatim>\<open>_defineProperty\<close>\<close>

text \<open>
  \<open>setFunc_call e r refresh f newValue oldValue this\<close> is
  \<^verbatim>\<open>setFunc.call(this, newValue, oldValue)\<close> for the function \<open>f\<close> stands for;
  \<open>refresh\<close> is \<^verbatim>\<open>this.refreshProperties()\<close>.
\<close>

fun setFunc_call ::
  "env \<Rightarrow> registry \<Rightarrow> (component \<Rightarrow> component outcome) \<Rightarrow> setFunc \<Rightarrow> jsval \<Rightarrow> jsval \<Rightarrow>
     component \<Rightarrow> component outcome" where
  "setFunc_call e r refresh On_enabled newValue oldValue this =
     onSetEnabled r JNull oldValue newValue this"
| "setFunc_call e r refresh On_type newValue oldValue this =
     (if strict_eq oldValue newValue then Done this
      else then_do (changeType e r oldValue newValue this) refresh)"
| "setFunc_call e r refresh On_color newValue oldValue this =
     light_call r ''setColor'' [newValue] id this"
| "setFunc_call e r refresh On_intensity newValue oldValue this =
     light_call r ''setIntensity'' [newValue] id this"
| "setFunc_call e r refresh On_castShadows newValue oldValue this =
     light_call r ''setCastShadows'' [newValue] id this"
| "setFunc_call e r refresh On_shadowDistance newValue oldValue this =
     light_call r ''setShadowDistance'' [newValue] id this"
| "setFunc_call e r refresh On_shadowResolution newValue oldValue this =
     light_call r ''setShadowResolution'' [newValue] id this"
| "setFunc_call e r refresh On_shadowBias newValue oldValue this =
     light_call r ''setShadowBias'' [JNum (js_times (Fin (- 0.01)) (to_number e newValue))] id this"
| "setFunc_call e r refresh On_normalOffsetBias newValue oldValue this =
     light_call r ''setNormalOffsetBias'' [newValue] id this"
| "setFunc_call e r refresh On_range newValue oldValue this =
     light_call r ''setAttenuationEnd'' [newValue] id this"
| "setFunc_call e r refresh On_innerConeAngle newValue oldValue this =
     light_call r ''setInnerConeAngle'' [newValue] id this"
| "setFunc_call e r refresh On_outerConeAngle newValue oldValue this =
     light_call r ''setOuterConeAngle'' [newValue] id this"
| "setFunc_call e r refresh On_falloffMode newValue oldValue this =
     light_call r ''setFalloffMode'' [newValue] id this"
| "setFunc_call e r refresh On_shadowType newValue oldValue this =
     light_call r ''setShadowType'' [newValue] id this"
| "setFunc_call e r refresh On_vsmBlurSize newValue oldValue this =
     light_call r ''setVsmBlurSize'' [newValue] id this"
| "setFunc_call e r refresh On_vsmBlurMode newValue oldValue this =
     light_call r ''setVsmBlurMode'' [newValue] id this"
| "setFunc_call e r refresh On_vsmBias newValue oldValue this =
     light_call r ''setVsmBias'' [newValue] id this"
| "setFunc_call e r refresh On_cookie newValue oldValue this =
     light_call r ''setCookie'' [newValue] id this"
| "setFunc_call e r refresh On_cookieIntensity newValue oldValue this =
     light_call r ''setCookieIntensity'' [newValue] id this"
| "setFunc_call e r refresh On_cookieFalloff newValue oldValue this =
     light_call r ''setCookieFalloff'' [newValue] id this"
| "setFunc_call e r refresh On_cookieChannel newValue oldValue this =
     light_call r ''setCookieChannel'' [newValue] id this"
| "setFunc_call e r refresh On_shadowUpdateMode newValue oldValue this =
     light_assign r (\<lambda>l. l\<lparr>light_shadowUpdateMode := newValue\<rparr>) this"
| "setFunc_call e r refresh On_mask newValue oldValue this =
     light_call r ''setMask'' [newValue] (\<lambda>l. l\<lparr>light_mask := newValue\<rparr>) this"
| "setFunc_call e r refresh On_affectDynamic newValue oldValue this =
     then_do
       (if truthy newValue then mask_or e r (MASK_DYNAMIC e) this
        else mask_and_not e r (MASK_DYNAMIC e) this)
       (setMask_of_mask r)"
| "setFunc_call e r refresh On_affectLightmapped newValue oldValue this =
     then_do
       (if truthy newValue
        then then_do (mask_or e r (MASK_BAKED e) this)
               (\<lambda>t. if truthy (get_prop r ''bake'' t) then mask_and_not e r (MASK_LIGHTMAP e) t
                    else Done t)
        else then_do (mask_and_not e r (MASK_BAKED e) this)
               (\<lambda>t. if truthy (get_prop r ''bake'' t) then mask_or e r (MASK_LIGHTMAP e) t
                    else Done t))
       (setMask_of_mask r)"
| "setFunc_call e r refresh On_bake newValue oldValue this =
     then_do
       (if truthy newValue
        then then_do (mask_or e r (MASK_LIGHTMAP e) this)
               (\<lambda>t. if truthy (get_prop r ''affectLightmapped'' t) then mask_and_not e r (MASK_BAKED e) t
                    else Done t)
        else then_do (mask_and_not e r (MASK_LIGHTMAP e) this)
               (\<lambda>t. if truthy (get_prop r ''affectLightmapped'' t) then mask_or e r (MASK_BAKED e) t
                    else Done t))
       (setMask_of_mask r)"

subsection \<open>\<^verbatim>\<open>refreshProperties\<close> and the accessors\<close>

text \<open>
  The loop of \<^verbatim>\<open>refreshProperties\<close> over \<^verbatim>\<open>_props\<close>, each round doing
  \<^verbatim>\<open>this[name] = this[name]\<close>; \<open>put name v\<close> is the assignment \<^verbatim>\<open>this[name] = v\<close>.
\<close>

fun refresh_loop ::
  "registry \<Rightarrow> (string \<Rightarrow> jsval \<Rightarrow> component \<Rightarrow> component outcome) \<Rightarrow> string list \<Rightarrow>
     component \<Rightarrow> component outcome" where
  "refresh_loop r put [] this = Done this"
| "refresh_loop r put (name # names) this =
     then_do (put name (get_prop r name this) this) (refresh_loop r put names)"

definition refresh_with ::
  "registry \<Rightarrow> (string \<Rightarrow> jsval \<Rightarrow> component \<Rightarrow> component outcome) \<Rightarrow> component \<Rightarrow>
     component outcome" where
  "refresh_with r put this =
     then_do (refresh_loop r put (props r) this)
       (\<lambda>t. if truthy (get_prop r ''enabled'' t) \<and> entity_enabled t then onEnable r t else Done t)"

text \<open>
  The assignment \<^verbatim>\<open>this[name] = value\<close>. With an accessor on the prototype it runs the
  \<open>set\<close> that \<^verbatim>\<open>_defineProperty\<close> wrote: return if the stored value is \<^verbatim>\<open>===\<close> the
  new one, else store it and call \<open>setFunc\<close> if there is one. The first argument bounds
  the depth of nested assignments: the function for \<open>type\<close> calls
  \<^verbatim>\<open>refreshProperties\<close>, which assigns every property again.
\<close>

primrec set_prop ::
  "nat \<Rightarrow> env \<Rightarrow> registry \<Rightarrow> string \<Rightarrow> jsval \<Rightarrow> component \<Rightarrow> component outcome" where
  "set_prop 0 e r name value this = OutOfFuel"
| "set_prop (Suc n) e r name value this =
     (case accessors r name of
        None \<Rightarrow> Done (this\<lparr>own := (own this)(name \<mapsto> value)\<rparr>)
      | Some setFunc \<Rightarrow>
          (let oldValue = data_get this name in
           if strict_eq oldValue value then Done this
           else
             (let this1 = this\<lparr>data := (data this)(name \<mapsto> value)\<rparr> in
              case setFunc of
                None \<Rightarrow> Done this1
              | Some f \<Rightarrow>
                  setFunc_call e r (refresh_with r (set_prop n e r)) f value oldValue
                    (emit (Dispatch name value oldValue) this1))))"

text \<open>\<^verbatim>\<open>refreshProperties()\<close>, its assignments nested at most \<open>n\<close> deep.\<close>

definition refreshProperties :: "nat \<Rightarrow> env \<Rightarrow> registry \<Rightarrow> component \<Rightarrow> component outcome" where
  "refreshProperties n e r this = refresh_with r (set_prop n e r) this"

text \<open>\<^verbatim>\<open>updateShadow()\<close>.\<close>

definition updateShadow :: "registry \<Rightarrow> component \<Rightarrow> component outcome" where
  "updateShadow r this = light_call r ''updateShadow'' [] id this"

subsection \<open>The deprecated property \<^verbatim>\<open>enable\<close>\<close>

definition enable_get_warning :: string where
  "enable_get_warning = ''WARNING: enable: Property is deprecated. Query enabled property instead.''"

definition enable_set_warning :: string where
  "enable_set_warning = ''WARNING: enable: Property is deprecated. Set enabled property instead.''"

text \<open>Reading \<^verbatim>\<open>this.enable\<close>: the value read and the component after the warning.\<close>

definition enable_get :: "registry \<Rightarrow> component \<Rightarrow> jsval \<times> component" where
  "enable_get r this =
     (let this1 = emit (ConsoleWarn enable_get_warning) this
      in (get_prop r ''enabled'' this1, this1))"

text \<open>The assignment \<^verbatim>\<open>this.enable = value\<close>.\<close>

definition enable_set :: "nat \<Rightarrow> env \<Rightarrow> registry \<Rightarrow> jsval \<Rightarrow> component \<Rightarrow> component outcome" where
  "enable_set n e r value this =
     set_prop n e r ''enabled'' value (emit (ConsoleWarn enable_set_warning) this)"

subsection \<open>Construction and sequences of assignments\<close>

text \<open>
  Modelled from the spec: the constructor \<^verbatim>\<open>LightComponent(system, entity)\<close> has an
  empty body, and the store \<^verbatim>\<open>this.data\<close> of an instance is made outside the file.
  By the spec it has one entry for each registered descriptor, initialised to the default
  of the descriptor. No handle is attached yet.
\<close>

definition construct :: "registry \<Rightarrow> bool \<Rightarrow> component" where
  "construct r ent =
     \<lparr>data = fold (\<lambda>(name, defaultValue) m. m(name \<mapsto> defaultValue))
               (zip (props r) (propsDefault r)) Map.empty,
      own = Map.empty, entity_enabled = ent, lights = Map.empty, next_light = 0, trace = []\<rparr>"

text \<open>A sequence of assignments \<^verbatim>\<open>this[name] = value\<close>, stopped by the first that throws.\<close>

fun assign_all ::
  "nat \<Rightarrow> env \<Rightarrow> registry \<Rightarrow> (string \<times> jsval) list \<Rightarrow> component \<Rightarrow> component outcome" where
  "assign_all n e r [] this = Done this"
| "assign_all n e r ((name, value) # ws) this =
     then_do (set_prop n e r name value this) (assign_all n e r ws)"

section \<open>Reading the mask\<close>

text \<open>The 32 bits of the mask of a handle, as the bit operators see them.\<close>

definition mask_bits :: "env \<Rightarrow> light \<Rightarrow> 32 word" where
  "mask_bits e l = to_int32 (to_number e (light_mask l))"

text \<open>The bits of the mask of \<^verbatim>\<open>this.light\<close> after a call, if it returned.\<close>

definition mask_after :: "env \<Rightarrow> registry \<Rightarrow> component outcome \<Rightarrow> 32 word option" where
  "mask_after e r res =
     (case res of
        Done t \<Rightarrow> (case this_light r t of Some (a, l) \<Rightarrow> Some (mask_bits e l) | None \<Rightarrow> None)
      | Throw err \<Rightarrow> None
      | OutOfFuel \<Rightarrow> None)"

text \<open>The stored value of a property after a call, if it returned.\<close>

definition value_after :: "registry \<Rightarrow> string \<Rightarrow> component outcome \<Rightarrow> jsval option" where
  "value_after r name res =
     (case res of Done t \<Rightarrow> Some (get_prop r name t) | Throw err \<Rightarrow> None | OutOfFuel \<Rightarrow> None)"

text \<open>
  The three constants are separate bits: none is zero and no two overlap.
\<close>

definition separate_bits :: "env \<Rightarrow> bool" where
  "separate_bits e =
     (MASK_DYNAMIC e \<noteq> 0 \<and> MASK_BAKED e \<noteq> 0 \<and> MASK_LIGHTMAP e \<noteq> 0 \<and>
      MASK_DYNAMIC e AND MASK_BAKED e = 0 \<and> MASK_DYNAMIC e AND MASK_LIGHTMAP e = 0 \<and>
      MASK_BAKED e AND MASK_LIGHTMAP e = 0)"

text \<open>
  The mask of the handle agrees with the three flags: the bit \<open>DYNAMIC\<close> is set exactly
  when \<open>affectDynamic\<close> is truthy; \<open>BAKED\<close> and \<open>LIGHTMAP\<close> follow
  \<open>affectLightmapped\<close> and \<open>bake\<close>, except that exactly one of the two is set when both
  flags are truthy.
\<close>

definition mask_agrees :: "env \<Rightarrow> registry \<Rightarrow> component \<Rightarrow> bool" where
  "mask_agrees e r this =
     (case this_light r this of
        None \<Rightarrow> False
      | Some (a, l) \<Rightarrow>
          (let m = mask_bits e l;
               dyn = truthy (get_prop r ''affectDynamic'' this);
               lm = truthy (get_prop r ''affectLightmapped'' this);
               bk = truthy (get_prop r ''bake'' this)
           in m AND MASK_DYNAMIC e = (if dyn then MASK_DYNAMIC e else 0) \<and>
              (if lm \<and> bk
               then (m AND MASK_BAKED e = MASK_BAKED e \<and> m AND MASK_LIGHTMAP e = 0) \<or>
                    (m AND MASK_BAKED e = 0 \<and> m AND MASK_LIGHTMAP e = MASK_LIGHTMAP e)
               else m AND MASK_BAKED e = (if lm then MASK_BAKED e else 0) \<and>
                    m AND MASK_LIGHTMAP e = (if bk then MASK_LIGHTMAP e else 0))))"

section \<open>What a call leaves in place\<close>

text \<open>
  \<open>extends s t\<close>: the trace of \<open>t\<close> continues the trace of \<open>s\<close>, and every stored value
  except that of \<open>light\<close> is the same in both.
\<close>

definition extends :: "component \<Rightarrow> component \<Rightarrow> bool" where
  "extends s t =
     ((\<exists>es. trace t = trace s @ es) \<and> (\<forall>k. k \<noteq> ''light'' \<longrightarrow> data_get t k = data_get s k))"

section \<open>An instance to compute with\<close>

text \<open>
  An environment with the mask constants 1, 2 and 4, whose factory builds a disabled
  handle with the mask 1, and an instance as it is after it was added to an enabled
  entity with no options: every property has its default and an enabled handle is
  attached at address 0. The examples coerce no string and no object to a number.
\<close>

definition fresh_light :: light where
  "fresh_light =
     \<lparr>light_mask = JNum (Fin 1), light_enabled = False, light_shadowUpdateMode = JNum (Fin 2)\<rparr>"

definition example_light :: light where
  "example_light = fresh_light\<lparr>light_enabled := True\<rparr>"

definition example_env :: env where
  "example_env =
     \<lparr>MASK_DYNAMIC = 1, MASK_BAKED = 2, MASK_LIGHTMAP = 4,
      LIGHTFALLOFF_LINEAR = JNum (Fin 0), SHADOW_DEPTH = JNum (Fin 0),
      BLUR_GAUSSIAN = JNum (Fin 1), SHADOWUPDATE_REALTIME = JNum (Fin 2),
      Color_1_1_1 = JObj 100, new_light = (\<lambda>t. fresh_light),
      str_to_number = (\<lambda>s. NaN), obj_to_number = (\<lambda>a. NaN)\<rparr>"

definition example_this :: component where
  "example_this =
     (construct (defineProps example_env) True)
       \<lparr>data := (data (construct (defineProps example_env) True))(''light'' \<mapsto> JObj 0),
        lights := [0 \<mapsto> example_light], next_light := 1\<rparr>"

text \<open>
  The example instance with \<open>bake\<close> and \<open>affectLightmapped\<close> both true and the mask 3
  (\<open>DYNAMIC\<close> and \<open>BAKED\<close>), as the assignments \<^verbatim>\<open>bake = true\<close> and then
  \<^verbatim>\<open>affectLightmapped = true\<close> leave it.
\<close>

definition example_baked :: component where
  "example_baked =
     example_this
       \<lparr>data := (data example_this)(''bake'' \<mapsto> JBool True, ''affectLightmapped'' \<mapsto> JBool True),
        lights := [0 \<mapsto> example_light\<lparr>light_mask := JNum (Fin 3)\<rparr>]\<rparr>"

section \<open>Facts about the values\<close>

lemma to_int32_of_int: "to_int32 (Fin (real_of_int i)) = word_of_int i"
proof -
  have "\<lfloor>- real_of_int i\<rfloor> = - i"
    by (simp only: of_int_minus [symmetric] floor_of_int)
  then show ?thesis by simp
qed

lemma to_int32_of_int32: "to_int32 (of_int32 w) = w"
proof -
  have "to_int32 (of_int32 w) = word_of_int (sint w)"
    unfolding of_int32_def by (rule to_int32_of_int)
  then show ?thesis by simp
qed

lemma mask_bits_update [simp]: "mask_bits e (l\<lparr>light_mask := JNum (of_int32 w)\<rparr>) = w"
  by (simp add: mask_bits_def to_int32_of_int32)

lemma word_or_and_not: "(m OR c) AND NOT c = m AND NOT (c :: 32 word)"
  by (simp add: bit_eq_iff bit_simps) blast

lemma word_frame:
  "c AND d = 0 \<Longrightarrow> (m OR c) AND d = m AND (d :: 32 word)"
  "c AND d = 0 \<Longrightarrow> (m AND NOT c) AND d = m AND (d :: 32 word)"
  "d AND c = 0 \<Longrightarrow> (m OR c) AND d = m AND (d :: 32 word)"
  "d AND c = 0 \<Longrightarrow> (m AND NOT c) AND d = m AND (d :: 32 word)"
  by (auto simp add: bit_eq_iff bit_simps)

lemma word_own:
  "(m OR c) AND c = (c :: 32 word)"
  "(m AND NOT c) AND c = (0 :: 32 word)"
  by (auto simp add: bit_eq_iff bit_simps)

section \<open>Facts about the registry\<close>

lemma props_defineProps: "props (defineProps e) = map fst (defineProps_calls e)"
  by (simp add: defineProps_def defineProps_calls_def defineProperty_def no_props_def)

lemma propsDefault_defineProps:
  "propsDefault (defineProps e) = map (\<lambda>(n, d, f). d) (defineProps_calls e)"
  by (simp add: defineProps_def defineProps_calls_def defineProperty_def no_props_def)

lemma accessors_defineProps:
  "accessors (defineProps e) = map_of (map (\<lambda>(n, d, f). (n, f)) (rev (defineProps_calls e)))"
  by (simp add: defineProps_def defineProps_calls_def defineProperty_def no_props_def fun_eq_iff)

lemma acc_enabled: "accessors (defineProps e) ''enabled'' = Some (Some On_enabled)"
  and acc_light: "accessors (defineProps e) ''light'' = Some None"
  and acc_type: "accessors (defineProps e) ''type'' = Some (Some On_type)"
  and acc_shadowBias: "accessors (defineProps e) ''shadowBias'' = Some (Some On_shadowBias)"
  and acc_range: "accessors (defineProps e) ''range'' = Some (Some On_range)"
  and acc_mask: "accessors (defineProps e) ''mask'' = Some (Some On_mask)"
  and acc_affectDynamic: "accessors (defineProps e) ''affectDynamic'' = Some (Some On_affectDynamic)"
  and acc_affectLightmapped:
    "accessors (defineProps e) ''affectLightmapped'' = Some (Some On_affectLightmapped)"
  and acc_bake: "accessors (defineProps e) ''bake'' = Some (Some On_bake)"
  by (simp_all add: accessors_defineProps defineProps_calls_def)

lemmas acc_simps = acc_enabled acc_light acc_type acc_shadowBias acc_range acc_mask
  acc_affectDynamic acc_affectLightmapped acc_bake


section \<open>Facts about reading the component\<close>

lemma get_prop_emit [simp]: "get_prop r k (emit ev this) = get_prop r k this"
  by (simp add: get_prop_def emit_def data_get_def split: option.splits)

lemma get_prop_lights [simp]: "get_prop r k (this\<lparr>lights := ls\<rparr>) = get_prop r k this"
  by (simp add: get_prop_def data_get_def split: option.splits)

lemma get_prop_trace [simp]: "get_prop r k (this\<lparr>trace := tr\<rparr>) = get_prop r k this"
  by (simp add: get_prop_def data_get_def split: option.splits)

lemma get_prop_data:
  "get_prop r k (this\<lparr>data := (data this)(name \<mapsto> v)\<rparr>) =
     (if k = name \<and> accessors r k \<noteq> None then v else get_prop r k this)"
  by (auto simp add: get_prop_def data_get_def split: option.splits)

lemma data_get_emit [simp]: "data_get (emit ev this) k = data_get this k"
  by (simp add: emit_def data_get_def)

lemma data_get_lights [simp]: "data_get (this\<lparr>lights := ls\<rparr>) k = data_get this k"
  by (simp add: data_get_def)

lemma data_get_trace [simp]: "data_get (this\<lparr>trace := tr\<rparr>) k = data_get this k"
  by (simp add: data_get_def)

lemma data_get_data [simp]:
  "data_get (this\<lparr>data := (data this)(name \<mapsto> v)\<rparr>) k = (if k = name then v else data_get this k)"
  by (simp add: data_get_def)

lemma get_prop_registered: "accessors r k = Some sf \<Longrightarrow> get_prop r k this = data_get this k"
  by (simp add: get_prop_def)

lemma this_light_emit [simp]: "this_light r (emit ev this) = this_light r this"
  by (simp add: this_light_def emit_def split: jsval.splits)

lemma this_light_trace [simp]: "this_light r (this\<lparr>trace := tr\<rparr>) = this_light r this"
  by (simp add: this_light_def split: jsval.splits)

lemma this_light_data:
  "name \<noteq> ''light'' \<Longrightarrow> this_light r (this\<lparr>data := (data this)(name \<mapsto> v)\<rparr>) = this_light r this"
  by (simp add: this_light_def get_prop_data split: jsval.splits)

lemma this_light_lights:
  "this_light r this = Some (a, l) \<Longrightarrow>
     this_light r (this\<lparr>lights := (lights this)(a \<mapsto> l')\<rparr>) = Some (a, l')"
  by (auto simp add: this_light_def split: jsval.splits option.splits)

lemma light_call_Some:
  "this_light r this = Some (a, l) \<Longrightarrow>
     light_call r m args upd this =
       Done (emit (LightCall a m args) (this\<lparr>lights := (lights this)(a \<mapsto> upd l)\<rparr>))"
  by (simp add: light_call_def)

lemma light_assign_Some:
  "this_light r this = Some (a, l) \<Longrightarrow>
     light_assign r upd this = Done (this\<lparr>lights := (lights this)(a \<mapsto> upd l)\<rparr>)"
  by (auto simp add: light_assign_def this_light_def split: jsval.splits option.splits)

lemma setMask_of_mask_Some:
  "this_light r this = Some (a, l) \<Longrightarrow>
     setMask_of_mask r this =
       Done (emit (LightCall a ''setMask'' [light_mask l]) (this\<lparr>lights := (lights this)(a \<mapsto> l)\<rparr>))"
  by (simp add: setMask_of_mask_def light_call_Some)

lemmas handle_simps = light_call_Some light_assign_Some setMask_of_mask_Some this_light_lights
  this_light_data get_prop_data mask_or_def mask_and_not_def

section \<open>Facts about the example instance\<close>

lemma data_example_this:
  "data example_this =
     [''enabled'' \<mapsto> JBool True, ''type'' \<mapsto> JStr ''directional'',
      ''color'' \<mapsto> JObj 100, ''intensity'' \<mapsto> JNum (Fin 1),
      ''castShadows'' \<mapsto> JBool False, ''shadowDistance'' \<mapsto> JNum (Fin 40),
      ''shadowResolution'' \<mapsto> JNum (Fin 1024), ''shadowBias'' \<mapsto> JNum (Fin 0.05),
      ''normalOffsetBias'' \<mapsto> JNum (Fin 0), ''range'' \<mapsto> JNum (Fin 10),
      ''innerConeAngle'' \<mapsto> JNum (Fin 40), ''outerConeAngle'' \<mapsto> JNum (Fin 45),
      ''falloffMode'' \<mapsto> JNum (Fin 0), ''shadowType'' \<mapsto> JNum (Fin 0),
      ''vsmBlurSize'' \<mapsto> JNum (Fin 11), ''vsmBlurMode'' \<mapsto> JNum (Fin 1),
      ''vsmBias'' \<mapsto> JNum (Fin (0.01 * 0.25)), ''cookie'' \<mapsto> JNull,
      ''cookieIntensity'' \<mapsto> JNum (Fin 1), ''cookieFalloff'' \<mapsto> JBool False,
      ''cookieChannel'' \<mapsto> JStr ''rgb'', ''shadowUpdateMode'' \<mapsto> JNum (Fin 2),
      ''mask'' \<mapsto> JNum (Fin 1), ''affectDynamic'' \<mapsto> JBool True,
      ''affectLightmapped'' \<mapsto> JBool False, ''bake'' \<mapsto> JBool False,
      ''light'' \<mapsto> JObj 0]"
  by (simp add: example_this_def construct_def props_defineProps propsDefault_defineProps
      defineProps_calls_def example_env_def)

lemma example_this_fields:
  "entity_enabled example_this" "trace example_this = []"
  "lights example_this = [0 \<mapsto> example_light]" "next_light example_this = 1"
  "own example_this = Map.empty"
  by (simp_all add: example_this_def construct_def)

lemma this_light_example_this:
  "this_light (defineProps example_env) example_this = Some (0, example_light)"
  by (simp add: this_light_def get_prop_def acc_light data_get_def data_example_this example_this_fields)

lemma example_env_masks:
  "MASK_DYNAMIC example_env = 1" "MASK_BAKED example_env = 2" "MASK_LIGHTMAP example_env = 4"
  by (simp_all add: example_env_def)

lemma this_light_example_baked:
  "this_light (defineProps example_env) example_baked
     = Some (0, example_light\<lparr>light_mask := JNum (Fin 3)\<rparr>)"
  by (simp add: this_light_def get_prop_def acc_light data_get_def data_example_this example_baked_def)

lemma example_this_no_NaN:
  "\<forall>name\<in>set (props (defineProps example_env)).
     accessors (defineProps example_env) name \<noteq> None \<and> data_get example_this name \<noteq> JNum NaN"
  by (simp add: props_defineProps accessors_defineProps defineProps_calls_def data_get_def data_example_this)

section \<open>The flag \<open>affectDynamic\<close>\<close>

text \<open>
  C4: for every prior state of the properties and of the mask, an assignment of any value
  to \<open>affectDynamic\<close> on an instance with a handle returns, and changes no bit of the
  mask of the handle outside \<open>MASK_DYNAMIC\<close>; the bits \<open>BAKED\<close> and \<open>LIGHTMAP\<close>, being
  separate from \<open>DYNAMIC\<close>, stay as they were.
\<close>

theorem affectDynamic_frame:
  assumes "this_light (defineProps e) this = Some (a, l)"
    and "MASK_DYNAMIC e AND MASK_BAKED e = 0" and "MASK_DYNAMIC e AND MASK_LIGHTMAP e = 0"
  shows "\<exists>t l'. set_prop (Suc n) e (defineProps e) ''affectDynamic'' v this = Done t
            \<and> this_light (defineProps e) t = Some (a, l')
            \<and> mask_bits e l' AND NOT (MASK_DYNAMIC e) = mask_bits e l AND NOT (MASK_DYNAMIC e)
            \<and> mask_bits e l' AND MASK_BAKED e = mask_bits e l AND MASK_BAKED e
            \<and> mask_bits e l' AND MASK_LIGHTMAP e = mask_bits e l AND MASK_LIGHTMAP e"
  using assms
  by (simp add: acc_simps handle_simps word_or_and_not word_frame mask_bits_def [of e l] Let_def)

theorem affectDynamic_frame_witness:
  "this_light (defineProps example_env) example_this = Some (0, example_light)
   \<and> MASK_DYNAMIC example_env AND MASK_BAKED example_env = 0
   \<and> MASK_DYNAMIC example_env AND MASK_LIGHTMAP example_env = 0
   \<and> (\<exists>t l'. set_prop (Suc 0) example_env (defineProps example_env) ''affectDynamic'' (JBool False) example_this = Done t
            \<and> this_light (defineProps example_env) t = Some (0, l')
            \<and> mask_bits example_env l' AND NOT (MASK_DYNAMIC example_env) = mask_bits example_env example_light AND NOT (MASK_DYNAMIC example_env)
            \<and> mask_bits example_env l' AND MASK_BAKED example_env = mask_bits example_env example_light AND MASK_BAKED example_env
            \<and> mask_bits example_env l' AND MASK_LIGHTMAP example_env = mask_bits example_env example_light AND MASK_LIGHTMAP example_env)"
proof -
  have h1: "this_light (defineProps example_env) example_this = Some (0, example_light)"
    by (simp add: this_light_def get_prop_def acc_light data_get_def example_this_def)
  have h2: "MASK_DYNAMIC example_env AND MASK_BAKED example_env = 0"
    by (simp add: example_env_def)
  have h3: "MASK_DYNAMIC example_env AND MASK_LIGHTMAP example_env = 0"
    by (simp add: example_env_def)
  from affectDynamic_frame [OF h1 h2 h3, of 0 "JBool False"] h1 h2 h3 show ?thesis by blast
qed

section \<open>The flag \<open>affectLightmapped\<close>\<close>

text \<open>
  C3: on an instance with a handle, when the stored \<open>bake\<close> and \<open>affectLightmapped\<close> are
  both true, assigning \<open>false\<close> to \<open>affectLightmapped\<close> leaves the mask with \<open>BAKED\<close>
  cleared and \<open>LIGHTMAP\<close> set; and when the stored \<open>bake\<close> is false, an assignment of
  any value to \<open>affectLightmapped\<close> changes no bit outside \<open>BAKED\<close>, so not the bit
  \<open>LIGHTMAP\<close>.
\<close>

theorem affectLightmapped_mask:
  assumes "this_light (defineProps e) this = Some (a, l)"
    and "MASK_BAKED e AND MASK_LIGHTMAP e = 0"
  shows "(truthy (get_prop (defineProps e) ''bake'' this) \<and>
          truthy (get_prop (defineProps e) ''affectLightmapped'' this) \<longrightarrow>
          (\<exists>t l'. set_prop (Suc n) e (defineProps e) ''affectLightmapped'' (JBool False) this = Done t
             \<and> this_light (defineProps e) t = Some (a, l')
             \<and> mask_bits e l' AND MASK_BAKED e = 0
             \<and> mask_bits e l' AND MASK_LIGHTMAP e = MASK_LIGHTMAP e))
       \<and> (\<not> truthy (get_prop (defineProps e) ''bake'' this) \<longrightarrow>
          (\<exists>t l'. set_prop (Suc n) e (defineProps e) ''affectLightmapped'' v this = Done t
             \<and> this_light (defineProps e) t = Some (a, l')
             \<and> mask_bits e l' AND NOT (MASK_BAKED e) = mask_bits e l AND NOT (MASK_BAKED e)
             \<and> mask_bits e l' AND MASK_LIGHTMAP e = mask_bits e l AND MASK_LIGHTMAP e))"
  using assms
  by (auto simp add: acc_simps handle_simps word_or_and_not word_frame word_own mask_bits_def [of e l]
      to_int32_of_int32 get_prop_registered strict_eq_def Let_def)

theorem affectLightmapped_mask_witness:
  "(this_light (defineProps example_env) example_baked = Some (0, example_light\<lparr>light_mask := JNum (Fin 3)\<rparr>)
    \<and> MASK_BAKED example_env AND MASK_LIGHTMAP example_env = 0
    \<and> truthy (get_prop (defineProps example_env) ''bake'' example_baked)
    \<and> truthy (get_prop (defineProps example_env) ''affectLightmapped'' example_baked)
    \<and> (\<exists>t l'. set_prop (Suc 0) example_env (defineProps example_env) ''affectLightmapped'' (JBool False) example_baked = Done t
          \<and> this_light (defineProps example_env) t = Some (0, l')
          \<and> mask_bits example_env l' AND MASK_BAKED example_env = 0
          \<and> mask_bits example_env l' AND MASK_LIGHTMAP example_env = MASK_LIGHTMAP example_env))
   \<and> (this_light (defineProps example_env) example_this = Some (0, example_light)
    \<and> \<not> truthy (get_prop (defineProps example_env) ''bake'' example_this)
    \<and> (\<exists>t l'. set_prop (Suc 0) example_env (defineProps example_env) ''affectLightmapped'' (JBool True) example_this = Done t
          \<and> this_light (defineProps example_env) t = Some (0, l')
          \<and> mask_bits example_env l' AND NOT (MASK_BAKED example_env)
               = mask_bits example_env example_light AND NOT (MASK_BAKED example_env)
          \<and> mask_bits example_env l' AND MASK_LIGHTMAP example_env
               = mask_bits example_env example_light AND MASK_LIGHTMAP example_env))"
proof -
  have m: "MASK_BAKED example_env AND MASK_LIGHTMAP example_env = 0"
    by (simp add: example_env_masks)
  have b1: "truthy (get_prop (defineProps example_env) ''bake'' example_baked)"
    and b2: "truthy (get_prop (defineProps example_env) ''affectLightmapped'' example_baked)"
    by (simp_all add: get_prop_def acc_simps data_get_def example_baked_def)
  have b3: "\<not> truthy (get_prop (defineProps example_env) ''bake'' example_this)"
    by (simp add: get_prop_def acc_simps data_get_def data_example_this)
  from affectLightmapped_mask [OF this_light_example_baked m, of 0 "JBool False"]
    affectLightmapped_mask [OF this_light_example_this m, of 0 "JBool True"]
    this_light_example_baked this_light_example_this m b1 b2 b3
  show ?thesis by blast
qed

section \<open>The property \<open>shadowBias\<close>\<close>



section \<open>Defining a property twice\<close>

text \<open>
  C8, as the code has it: \<^verbatim>\<open>_defineProperty\<close> with a name that is registered already does
  not fail. It pushes the name and the default a second time and replaces the accessor of
  the name.
\<close>

theorem defineProperty_again:
  assumes "name \<in> set (props r)"
  shows "props (defineProperty name defaultValue setFunc r) = props r @ [name]
       \<and> propsDefault (defineProperty name defaultValue setFunc r) = propsDefault r @ [defaultValue]
       \<and> accessors (defineProperty name defaultValue setFunc r) = (accessors r)(name \<mapsto> setFunc)"
  by (simp add: defineProperty_def)

theorem defineProperty_again_witness:
  "''range'' \<in> set (props (defineProps example_env))
   \<and> props (defineProperty ''range'' (JNum (Fin 20)) None (defineProps example_env))
        = props (defineProps example_env) @ [''range'']
   \<and> propsDefault (defineProperty ''range'' (JNum (Fin 20)) None (defineProps example_env))
        = propsDefault (defineProps example_env) @ [JNum (Fin 20)]
   \<and> accessors (defineProperty ''range'' (JNum (Fin 20)) None (defineProps example_env))
        = (accessors (defineProps example_env))(''range'' \<mapsto> None)"
proof -
  have h: "''range'' \<in> set (props (defineProps example_env))"
    by (simp add: props_defineProps defineProps_calls_def)
  from defineProperty_again [OF h, of "JNum (Fin 20)" None] h show ?thesis by blast
qed

text \<open>The claim as the spec states it fails for \<open>range\<close>: the second call succeeds.\<close>

theorem defineProperty_again_counterexample:
  "count_list (props (defineProperty ''range'' (JNum (Fin 20)) None (defineProps example_env))) ''range'' = 2
   \<and> accessors (defineProps example_env) ''range'' = Some (Some On_range)
   \<and> accessors (defineProperty ''range'' (JNum (Fin 20)) None (defineProps example_env)) ''range'' = Some None"
  by (simp add: defineProperty_def props_defineProps acc_range defineProps_calls_def)

section \<open>A new instance\<close>

text \<open>
  C9: on a new instance, reading the registered properties in order gives the list of
  their defaults, and nothing has been dispatched or called.
\<close>

theorem fresh_defaults:
  "map (\<lambda>P. get_prop (defineProps e) P (construct (defineProps e) ent)) (props (defineProps e))
     = propsDefault (defineProps e)
   \<and> trace (construct (defineProps e) ent) = []"
  by (simp add: props_defineProps propsDefault_defineProps accessors_defineProps defineProps_calls_def
      get_prop_def data_get_def construct_def)

section \<open>\<^verbatim>\<open>refreshProperties\<close> on stored values\<close>

lemma set_prop_same:
  "accessors r name = Some sf \<Longrightarrow> data_get this name \<noteq> JNum NaN \<Longrightarrow>
     set_prop (Suc n) e r name (get_prop r name this) this = Done this"
  by (simp add: get_prop_def strict_eq_def)

lemma refresh_loop_same:
  "\<forall>name\<in>set names. accessors r name \<noteq> None \<and> data_get this name \<noteq> JNum NaN \<Longrightarrow>
     refresh_loop r (set_prop (Suc n) e r) names this = Done this"
  by (induction names) (auto simp add: set_prop_same simp del: set_prop.simps)

lemma refreshProperties_same:
  assumes "\<forall>name\<in>set (props r). accessors r name \<noteq> None \<and> data_get this name \<noteq> JNum NaN"
  shows "refreshProperties (Suc n) e r this =
           (if truthy (get_prop r ''enabled'' this) \<and> entity_enabled this then onEnable r this
            else Done this)"
  by (simp add: refreshProperties_def refresh_with_def refresh_loop_same [OF assms] del: set_prop.simps)

text \<open>
  C1, as the code behaves: on the example instance \<^verbatim>\<open>refreshProperties()\<close> calls no
  \<open>setFunc\<close> at all. Each assignment \<^verbatim>\<open>this[name] = this[name]\<close> finds the stored value
  \<^verbatim>\<open>===\<close> the new one and returns; only the final \<^verbatim>\<open>onEnable\<close> is seen.
\<close>

theorem refreshProperties_dispatches_nothing:
  "refreshProperties (Suc n) example_env (defineProps example_env) example_this =
     Done (example_this
       \<lparr>trace := [Call ''_super.onEnable'' [], LightCall 0 ''setEnabled'' [JBool True]]\<rparr>)"
proof -
  have en: "get_prop (defineProps example_env) ''enabled'' example_this = JBool True"
    by (simp add: get_prop_def acc_enabled data_get_def data_example_this)
  have same: "example_light\<lparr>light_enabled := True\<rparr> = example_light"
    by (simp add: example_light_def)
  have "[0 \<mapsto> example_light] = (lights example_this)"
    by (simp add: example_this_fields)
  then have ls: "example_this\<lparr>lights := [0 \<mapsto> example_light]\<rparr> = example_this"
    by simp
  show ?thesis
    by (simp add: refreshProperties_same [OF example_this_no_NaN] en example_this_fields onEnable_def
        light_call_Some [where l = example_light and a = 0] this_light_example_this same)
      (simp add: emit_def example_this_fields ls)
qed

section \<open>The deprecated alias \<open>enable\<close>\<close>

text \<open>
  C7: an assignment to \<open>enable\<close> ends in the state in which the same assignment to
  \<open>enabled\<close> ends, with one warning put before what the assignment does; reading
  \<open>enable\<close> gives the value of \<open>enabled\<close> and emits one warning. Assigning \<open>false\<close>
  on an instance with a handle, on an enabled entity, whose \<open>enabled\<close> is not \<open>false\<close>
  yet, leaves \<open>enabled\<close> false and the handle disabled.
\<close>

theorem enable_alias:
  "enable_set (Suc n) e (defineProps e) v this =
     (case set_prop (Suc n) e (defineProps e) ''enabled'' v this of
        Done t \<Rightarrow>
          Done (t\<lparr>trace := trace this @ ConsoleWarn enable_set_warning
                              # drop (length (trace this)) (trace t)\<rparr>)
      | Throw err \<Rightarrow> Throw err
      | OutOfFuel \<Rightarrow> OutOfFuel)
   \<and> enable_get (defineProps e) this =
       (get_prop (defineProps e) ''enabled'' this, emit (ConsoleWarn enable_get_warning) this)
   \<and> (this_light (defineProps e) this = Some (a, l) \<and> entity_enabled this
        \<and> \<not> strict_eq (get_prop (defineProps e) ''enabled'' this) (JBool False) \<longrightarrow>
      (\<exists>t. enable_set (Suc n) e (defineProps e) (JBool False) this = Done t
         \<and> get_prop (defineProps e) ''enabled'' t = JBool False
         \<and> this_light (defineProps e) t = Some (a, l\<lparr>light_enabled := False\<rparr>)
         \<and> trace t = trace this @
             [ConsoleWarn enable_set_warning,
              Dispatch ''enabled'' (JBool False) (get_prop (defineProps e) ''enabled'' this),
              Call ''onSetEnabled'' [JNull, get_prop (defineProps e) ''enabled'' this, JBool False],
              Call ''_super.onDisable'' [], LightCall a ''setEnabled'' [JBool False]]))"
proof (intro conjI impI)
  show "enable_set (Suc n) e (defineProps e) v this =
     (case set_prop (Suc n) e (defineProps e) ''enabled'' v this of
        Done t \<Rightarrow>
          Done (t\<lparr>trace := trace this @ ConsoleWarn enable_set_warning
                              # drop (length (trace this)) (trace t)\<rparr>)
      | Throw err \<Rightarrow> Throw err
      | OutOfFuel \<Rightarrow> OutOfFuel)"
    by (cases "this_light (defineProps e) this")
      (auto simp add: enable_set_def acc_simps onSetEnabled_def onEnable_def onDisable_def
        light_call_def this_light_data Let_def emit_def)
next
  show "enable_get (defineProps e) this =
       (get_prop (defineProps e) ''enabled'' this, emit (ConsoleWarn enable_get_warning) this)"
    by (simp add: enable_get_def Let_def)
next
  assume "this_light (defineProps e) this = Some (a, l) \<and> entity_enabled this
        \<and> \<not> strict_eq (get_prop (defineProps e) ''enabled'' this) (JBool False)"
  then show "\<exists>t. enable_set (Suc n) e (defineProps e) (JBool False) this = Done t
         \<and> get_prop (defineProps e) ''enabled'' t = JBool False
         \<and> this_light (defineProps e) t = Some (a, l\<lparr>light_enabled := False\<rparr>)
         \<and> trace t = trace this @
             [ConsoleWarn enable_set_warning,
              Dispatch ''enabled'' (JBool False) (get_prop (defineProps e) ''enabled'' this),
              Call ''onSetEnabled'' [JNull, get_prop (defineProps e) ''enabled'' this, JBool False],
              Call ''_super.onDisable'' [], LightCall a ''setEnabled'' [JBool False]]"
    by (simp add: enable_set_def acc_simps onSetEnabled_def onDisable_def handle_simps
        get_prop_registered Let_def)
      (simp add: emit_def)
qed

theorem enable_alias_witness:
  "this_light (defineProps example_env) example_this = Some (0, example_light)
   \<and> entity_enabled example_this
   \<and> \<not> strict_eq (get_prop (defineProps example_env) ''enabled'' example_this) (JBool False)
   \<and> (\<exists>t. enable_set (Suc 0) example_env (defineProps example_env) (JBool False) example_this = Done t
         \<and> get_prop (defineProps example_env) ''enabled'' t = JBool False
         \<and> this_light (defineProps example_env) t = Some (0, example_light\<lparr>light_enabled := False\<rparr>)
         \<and> trace t =
             [ConsoleWarn enable_set_warning,
              Dispatch ''enabled'' (JBool False) (JBool True),
              Call ''onSetEnabled'' [JNull, JBool True, JBool False],
              Call ''_super.onDisable'' [], LightCall 0 ''setEnabled'' [JBool False]])"
proof -
  have g: "get_prop (defineProps example_env) ''enabled'' example_this = JBool True"
    by (simp add: get_prop_def acc_simps data_get_def data_example_this)
  have h: "this_light (defineProps example_env) example_this = Some (0, example_light)
        \<and> entity_enabled example_this
        \<and> \<not> strict_eq (get_prop (defineProps example_env) ''enabled'' example_this) (JBool False)"
    by (simp add: this_light_example_this example_this_fields g strict_eq_def)
  note last = enable_alias [of 0 example_env "JBool False" example_this 0 example_light,
      THEN conjunct2, THEN conjunct2, THEN mp, OF h]
  from last h show ?thesis
    by (simp add: g example_this_fields del: set_prop.simps)
qed

section \<open>Changing the type\<close>

lemma type_change:
  assumes nn: "\<forall>name\<in>set (props r). accessors r name \<noteq> None \<and> data_get this name \<noteq> JNum NaN"
    and acc: "accessors r ''type'' = Some (Some On_type)"
    and new: "\<not> strict_eq (data_get this ''type'') v" "v \<noteq> JNum NaN"
  shows "set_prop (Suc (Suc n)) e r ''type'' v this =
           then_do
             (changeType e r (data_get this ''type'') v
                (emit (Dispatch ''type'' v (data_get this ''type''))
                   (this\<lparr>data := (data this)(''type'' \<mapsto> v)\<rparr>)))
             (\<lambda>t. if truthy (get_prop r ''enabled'' t) \<and> entity_enabled t then onEnable r t
                  else Done t)"
proof -
  let ?this1 = "emit (Dispatch ''type'' v (data_get this ''type''))
                   (this\<lparr>data := (data this)(''type'' \<mapsto> v)\<rparr>)"
  obtain t where t: "changeType e r (data_get this ''type'') v ?this1 = Done t"
    and d: "data t = (data this)(''type'' \<mapsto> v, ''light'' \<mapsto> JObj (next_light this))"
    by (simp add: changeType_def Let_def emit_def)
  have "\<forall>name\<in>set (props r). accessors r name \<noteq> None \<and> data_get t name \<noteq> JNum NaN"
    using nn new(2) by (simp add: data_get_def d)
  then have loop: "refresh_loop r (set_prop (Suc n) e r) (props r) t = Done t"
    by (rule refresh_loop_same)
  have "set_prop (Suc (Suc n)) e r ''type'' v this =
          then_do (changeType e r (data_get this ''type'') v ?this1)
            (refresh_with r (set_prop (Suc n) e r))"
    using acc new(1) by (subst set_prop.simps(2)) (simp add: Let_def del: set_prop.simps)
  then show ?thesis
    by (simp add: t refresh_with_def loop del: set_prop.simps)
qed

text \<open>
  C5, as the code behaves: on the example instance, of type \<open>directional\<close> with the range
  10, the assignment \<^verbatim>\<open>type = "point"\<close> calls \<^verbatim>\<open>changeType\<close> and then
  \<^verbatim>\<open>refreshProperties\<close>, and returns. The new handle, at address 1, has received the one
  call \<^verbatim>\<open>setEnabled(true)\<close>: \<^verbatim>\<open>setAttenuationEnd\<close> was not called, and the handle is as
  the factory built it, but enabled.
\<close>

theorem type_change_skips_range:
  "get_prop (defineProps example_env) ''type'' example_this = JStr ''directional''
   \<and> get_prop (defineProps example_env) ''range'' example_this = JNum (Fin 10)
   \<and> set_prop (Suc (Suc n)) example_env (defineProps example_env) ''type'' (JStr ''point'') example_this =
       Done (example_this
         \<lparr>data := (data example_this)(''type'' \<mapsto> JStr ''point'', ''light'' \<mapsto> JObj 1),
          lights := [1 \<mapsto> (new_light example_env (JStr ''point''))\<lparr>light_enabled := True\<rparr>],
          next_light := 2,
          trace := [Dispatch ''type'' (JStr ''point'') (JStr ''directional''),
                    Call ''system.changeType'' [JStr ''directional'', JStr ''point''],
                    Call ''_super.onEnable'' [],
                    LightCall 1 ''setEnabled'' [JBool True]]\<rparr>)"
proof -
  have ty: "data_get example_this ''type'' = JStr ''directional''"
    and li: "data_get example_this ''light'' = JObj 0"
    and en: "data_get example_this ''enabled'' = JBool True"
    and ra: "data_get example_this ''range'' = JNum (Fin 10)"
    by (simp_all add: data_get_def data_example_this)
  have new: "\<not> strict_eq (data_get example_this ''type'') (JStr ''point'')" "JStr ''point'' \<noteq> JNum NaN"
    by (simp_all add: ty strict_eq_def)
  have "set_prop (Suc (Suc n)) example_env (defineProps example_env) ''type'' (JStr ''point'') example_this =
       Done (example_this
         \<lparr>data := (data example_this)(''type'' \<mapsto> JStr ''point'', ''light'' \<mapsto> JObj 1),
          lights := [1 \<mapsto> (new_light example_env (JStr ''point''))\<lparr>light_enabled := True\<rparr>],
          next_light := 2,
          trace := [Dispatch ''type'' (JStr ''point'') (JStr ''directional''),
                    Call ''system.changeType'' [JStr ''directional'', JStr ''point''],
                    Call ''_super.onEnable'' [],
                    LightCall 1 ''setEnabled'' [JBool True]]\<rparr>)"
    unfolding type_change [OF example_this_no_NaN acc_type new]
    by (simp add: changeType_def Let_def onEnable_def light_call_def this_light_def get_prop_def
        acc_simps emit_def example_this_fields data_get_def data_example_this
        del: set_prop.simps)
  then show ?thesis
    by (simp add: get_prop_registered [OF acc_type] get_prop_registered [OF acc_range] ty ra)
qed

section \<open>The mask and the three flags\<close>

lemma flag_step:
  assumes sep: "separate_bits e" and ag: "mask_agrees e (defineProps e) this"
    and name: "name = ''affectDynamic'' \<or> name = ''affectLightmapped'' \<or> name = ''bake''"
  shows "\<exists>t. set_prop (Suc n) e (defineProps e) name v this = Done t \<and> mask_agrees e (defineProps e) t"
proof -
  from ag obtain a l where l: "this_light (defineProps e) this = Some (a, l)"
    by (auto simp add: mask_agrees_def split: option.splits)
  from sep have bits:
    "MASK_DYNAMIC e AND MASK_BAKED e = 0" "MASK_DYNAMIC e AND MASK_LIGHTMAP e = 0"
    "MASK_BAKED e AND MASK_LIGHTMAP e = 0"
    by (simp_all add: separate_bits_def)
  from name show ?thesis
  proof (elim disjE)
    assume "name = ''affectDynamic''"
    with ag l bits show ?thesis
      by (auto simp add: mask_agrees_def acc_simps handle_simps get_prop_registered Let_def
          mask_bits_def [of e l] to_int32_of_int32 word_frame word_own)
  next
    assume "name = ''affectLightmapped''"
    with ag l bits show ?thesis
      by (auto simp add: mask_agrees_def acc_simps handle_simps get_prop_registered Let_def
          mask_bits_def [of e l] to_int32_of_int32 word_frame word_own)
  next
    assume "name = ''bake''"
    with ag l bits show ?thesis
      by (auto simp add: mask_agrees_def acc_simps handle_simps get_prop_registered Let_def
          mask_bits_def [of e l] to_int32_of_int32 word_frame word_own)
  qed
qed


lemma assign_flags_agrees:
  assumes "separate_bits e" and "mask_agrees e (defineProps e) this"
    and "\<forall>(name, v)\<in>set ws. name = ''affectDynamic'' \<or> name = ''affectLightmapped'' \<or> name = ''bake''"
  shows "\<exists>t. assign_all (Suc n) e (defineProps e) ws this = Done t \<and> mask_agrees e (defineProps e) t"
  using assms(2,3)
proof (induction ws arbitrary: this)
  case Nil
  then show ?case by simp
next
  case (Cons w ws)
  obtain name v where w: "w = (name, v)" by (cases w)
  with Cons.prems have "name = ''affectDynamic'' \<or> name = ''affectLightmapped'' \<or> name = ''bake''"
    by simp
  from flag_step [OF assms(1) Cons.prems(1) this, of n v]
  obtain t1 where t1: "set_prop (Suc n) e (defineProps e) name v this = Done t1"
    and ag1: "mask_agrees e (defineProps e) t1" by blast
  from Cons.prems have "\<forall>(name, v)\<in>set ws. name = ''affectDynamic'' \<or> name = ''affectLightmapped'' \<or> name = ''bake''"
    by simp
  from Cons.IH [OF ag1 this] show ?case
    by (simp add: w t1 del: set_prop.simps)
qed

lemma mask_agrees_example_this: "mask_agrees example_env (defineProps example_env) example_this"
  by (simp add: mask_agrees_def this_light_example_this get_prop_def acc_simps data_get_def
      data_example_this mask_bits_def example_light_def fresh_light_def example_env_masks Let_def)

lemma separate_bits_example_env: "separate_bits example_env"
  by (simp add: separate_bits_def example_env_masks)

lemma write_affectLightmapped:
  assumes "this_light (defineProps e) this = Some (a, l)"
  shows "\<exists>t l'. set_prop (Suc n) e (defineProps e) ''affectLightmapped'' v this = Done t
           \<and> this_light (defineProps e) t = Some (a, l')
           \<and> (\<forall>k. data_get t k = (if k = ''affectLightmapped'' then v else data_get this k))
           \<and> mask_bits e l' =
               (if strict_eq (data_get this ''affectLightmapped'') v then mask_bits e l
                else if truthy v
                  then (if truthy (data_get this ''bake'')
                        then (mask_bits e l OR MASK_BAKED e) AND NOT (MASK_LIGHTMAP e)
                        else mask_bits e l OR MASK_BAKED e)
                  else (if truthy (data_get this ''bake'')
                        then (mask_bits e l AND NOT (MASK_BAKED e)) OR MASK_LIGHTMAP e
                        else mask_bits e l AND NOT (MASK_BAKED e)))"
  using assms
  by (auto simp add: acc_simps handle_simps get_prop_registered Let_def strict_eq_def
      mask_bits_def [of e l] to_int32_of_int32)

lemma write_bake:
  assumes "this_light (defineProps e) this = Some (a, l)"
  shows "\<exists>t l'. set_prop (Suc n) e (defineProps e) ''bake'' v this = Done t
           \<and> this_light (defineProps e) t = Some (a, l')
           \<and> (\<forall>k. data_get t k = (if k = ''bake'' then v else data_get this k))
           \<and> mask_bits e l' =
               (if strict_eq (data_get this ''bake'') v then mask_bits e l
                else if truthy v
                  then (if truthy (data_get this ''affectLightmapped'')
                        then (mask_bits e l OR MASK_LIGHTMAP e) AND NOT (MASK_BAKED e)
                        else mask_bits e l OR MASK_LIGHTMAP e)
                  else (if truthy (data_get this ''affectLightmapped'')
                        then (mask_bits e l AND NOT (MASK_LIGHTMAP e)) OR MASK_BAKED e
                        else mask_bits e l AND NOT (MASK_LIGHTMAP e)))"
  using assms
  by (auto simp add: acc_simps handle_simps get_prop_registered Let_def strict_eq_def
      mask_bits_def [of e l] to_int32_of_int32)

lemma write_mask:
  assumes "this_light (defineProps e) this = Some (a, l)"
    and "\<not> strict_eq (data_get this ''mask'') v"
  shows "\<exists>t. set_prop (Suc n) e (defineProps e) ''mask'' v this = Done t
           \<and> this_light (defineProps e) t = Some (a, l\<lparr>light_mask := v\<rparr>)
           \<and> (\<forall>k. data_get t k = (if k = ''mask'' then v else data_get this k))"
  using assms
  by (auto simp add: acc_simps handle_simps get_prop_registered Let_def)

text \<open>
  C2, as the code has it: when the mask constants are separate bits and the mask of the
  handle agrees with the three flags, every assignment in a sequence of assignments to
  \<open>affectDynamic\<close>, \<open>affectLightmapped\<close> and \<open>bake\<close> returns and the mask agrees with the
  flags again afterwards. To agree leaves open which of \<open>BAKED\<close> and \<open>LIGHTMAP\<close> is set
  when \<open>affectLightmapped\<close> and \<open>bake\<close> are both true. The bits are not kept from other
  operations: an assignment of a new value to \<open>mask\<close> makes that value the mask of the
  handle.
\<close>

theorem flags_keep_mask:
  assumes "separate_bits e" and "mask_agrees e (defineProps e) this"
    and "\<forall>(name, v)\<in>set ws. name = ''affectDynamic'' \<or> name = ''affectLightmapped'' \<or> name = ''bake''"
  shows "(\<exists>t. assign_all (Suc n) e (defineProps e) ws this = Done t
            \<and> mask_agrees e (defineProps e) t)
       \<and> (\<not> strict_eq (get_prop (defineProps e) ''mask'' this) m \<longrightarrow>
            (\<exists>t a l. set_prop (Suc n) e (defineProps e) ''mask'' m this = Done t
               \<and> this_light (defineProps e) t = Some (a, l) \<and> light_mask l = m))"
proof (intro conjI impI)
  show "\<exists>t. assign_all (Suc n) e (defineProps e) ws this = Done t \<and> mask_agrees e (defineProps e) t"
    using assms by (rule assign_flags_agrees)
next
  assume new: "\<not> strict_eq (get_prop (defineProps e) ''mask'' this) m"
  from assms(2) obtain a l where l: "this_light (defineProps e) this = Some (a, l)"
    by (auto simp add: mask_agrees_def split: option.splits)
  from new have "\<not> strict_eq (data_get this ''mask'') m"
    by (simp add: get_prop_registered [OF acc_mask])
  from write_mask [OF l this, of n]
  show "\<exists>t a l. set_prop (Suc n) e (defineProps e) ''mask'' m this = Done t
          \<and> this_light (defineProps e) t = Some (a, l) \<and> light_mask l = m"
    by auto
qed

theorem flags_keep_mask_witness:
  "separate_bits example_env \<and> mask_agrees example_env (defineProps example_env) example_this
   \<and> (\<exists>t. assign_all (Suc 0) example_env (defineProps example_env)
              [(''bake'', JBool True), (''affectLightmapped'', JBool True), (''affectDynamic'', JBool False)]
              example_this = Done t
          \<and> mask_agrees example_env (defineProps example_env) t)
   \<and> \<not> strict_eq (get_prop (defineProps example_env) ''mask'' example_this) (JNum (Fin 0))
   \<and> (\<exists>t a l. set_prop (Suc 0) example_env (defineProps example_env) ''mask'' (JNum (Fin 0)) example_this = Done t
          \<and> this_light (defineProps example_env) t = Some (a, l) \<and> light_mask l = JNum (Fin 0))"
proof -
  have ws: "\<forall>(name, v)\<in>set [(''bake'', JBool True), (''affectLightmapped'', JBool True), (''affectDynamic'', JBool False)].
          name = ''affectDynamic'' \<or> name = ''affectLightmapped'' \<or> name = ''bake''"
    by simp
  have new: "\<not> strict_eq (get_prop (defineProps example_env) ''mask'' example_this) (JNum (Fin 0))"
    by (simp add: get_prop_def acc_simps data_get_def data_example_this strict_eq_def)
  from flags_keep_mask [OF separate_bits_example_env mask_agrees_example_this ws, of 0 "JNum (Fin 0)"]
    separate_bits_example_env mask_agrees_example_this new
  show ?thesis by blast
qed

text \<open>
  The claim as the spec states it fails on the example instance: assigning \<open>true\<close> to
  \<open>bake\<close> and then to \<open>affectLightmapped\<close> gives the mask 3, in the other order the mask
  5, with the same three stored flags; and \<^verbatim>\<open>mask = 0\<close> clears the bit \<open>DYNAMIC\<close> while
  \<open>affectDynamic\<close> stays true.
\<close>

theorem mask_not_function_of_flags_counterexample:
  "value_after (defineProps example_env) ''affectDynamic''
      (assign_all (Suc 0) example_env (defineProps example_env)
         [(''bake'', JBool True), (''affectLightmapped'', JBool True)] example_this) = Some (JBool True)
   \<and> value_after (defineProps example_env) ''affectLightmapped''
      (assign_all (Suc 0) example_env (defineProps example_env)
         [(''bake'', JBool True), (''affectLightmapped'', JBool True)] example_this) = Some (JBool True)
   \<and> value_after (defineProps example_env) ''bake''
      (assign_all (Suc 0) example_env (defineProps example_env)
         [(''bake'', JBool True), (''affectLightmapped'', JBool True)] example_this) = Some (JBool True)
   \<and> mask_after example_env (defineProps example_env)
      (assign_all (Suc 0) example_env (defineProps example_env)
         [(''bake'', JBool True), (''affectLightmapped'', JBool True)] example_this) = Some 3
   \<and> value_after (defineProps example_env) ''affectDynamic''
      (assign_all (Suc 0) example_env (defineProps example_env)
         [(''affectLightmapped'', JBool True), (''bake'', JBool True)] example_this) = Some (JBool True)
   \<and> value_after (defineProps example_env) ''affectLightmapped''
      (assign_all (Suc 0) example_env (defineProps example_env)
         [(''affectLightmapped'', JBool True), (''bake'', JBool True)] example_this) = Some (JBool True)
   \<and> value_after (defineProps example_env) ''bake''
      (assign_all (Suc 0) example_env (defineProps example_env)
         [(''affectLightmapped'', JBool True), (''bake'', JBool True)] example_this) = Some (JBool True)
   \<and> mask_after example_env (defineProps example_env)
      (assign_all (Suc 0) example_env (defineProps example_env)
         [(''affectLightmapped'', JBool True), (''bake'', JBool True)] example_this) = Some 5
   \<and> mask_after example_env (defineProps example_env)
      (set_prop (Suc 0) example_env (defineProps example_env) ''mask'' (JNum (Fin 0)) example_this) = Some 0
   \<and> value_after (defineProps example_env) ''affectDynamic''
      (set_prop (Suc 0) example_env (defineProps example_env) ''mask'' (JNum (Fin 0)) example_this) = Some (JBool True)"
proof -
  let ?r = "defineProps example_env"
  have d: "data_get example_this ''bake'' = JBool False" "data_get example_this ''affectLightmapped'' = JBool False"
    "data_get example_this ''affectDynamic'' = JBool True" "data_get example_this ''mask'' = JNum (Fin 1)"
    by (simp_all add: data_get_def data_example_this)
  have m: "mask_bits example_env example_light = 1"
    by (simp add: mask_bits_def example_light_def fresh_light_def)
  note l = this_light_example_this
  note g = get_prop_registered [OF acc_affectDynamic] get_prop_registered [OF acc_affectLightmapped]
    get_prop_registered [OF acc_bake]
  from write_bake [OF l, of 0 "JBool True"] obtain a1 la1
    where a1: "set_prop (Suc 0) example_env ?r ''bake'' (JBool True) example_this = Done a1"
      "this_light ?r a1 = Some (0, la1)"
      "\<forall>k. data_get a1 k = (if k = ''bake'' then JBool True else data_get example_this k)"
      "mask_bits example_env la1 = 5"
    by (auto simp add: d m strict_eq_def example_env_masks simp del: set_prop.simps)
  from write_affectLightmapped [OF a1(2), of 0 "JBool True"] obtain a2 la2
    where a2: "set_prop (Suc 0) example_env ?r ''affectLightmapped'' (JBool True) a1 = Done a2"
      "this_light ?r a2 = Some (0, la2)"
      "\<forall>k. data_get a2 k = (if k = ''affectLightmapped'' then JBool True else data_get a1 k)"
      "mask_bits example_env la2 = 3"
    by (auto simp add: a1 d strict_eq_def example_env_masks simp del: set_prop.simps)
  from write_affectLightmapped [OF l, of 0 "JBool True"] obtain b1 lb1
    where b1: "set_prop (Suc 0) example_env ?r ''affectLightmapped'' (JBool True) example_this = Done b1"
      "this_light ?r b1 = Some (0, lb1)"
      "\<forall>k. data_get b1 k = (if k = ''affectLightmapped'' then JBool True else data_get example_this k)"
      "mask_bits example_env lb1 = 3"
    by (auto simp add: d m strict_eq_def example_env_masks simp del: set_prop.simps)
  from write_bake [OF b1(2), of 0 "JBool True"] obtain b2 lb2
    where b2: "set_prop (Suc 0) example_env ?r ''bake'' (JBool True) b1 = Done b2"
      "this_light ?r b2 = Some (0, lb2)"
      "\<forall>k. data_get b2 k = (if k = ''bake'' then JBool True else data_get b1 k)"
      "mask_bits example_env lb2 = 5"
    by (auto simp add: b1 d strict_eq_def example_env_masks simp del: set_prop.simps)
  have "\<not> strict_eq (data_get example_this ''mask'') (JNum (Fin 0))"
    by (simp add: d strict_eq_def)
  from write_mask [OF l this, of 0] obtain c
    where c: "set_prop (Suc 0) example_env ?r ''mask'' (JNum (Fin 0)) example_this = Done c"
      "this_light ?r c = Some (0, example_light\<lparr>light_mask := JNum (Fin 0)\<rparr>)"
      "\<forall>k. data_get c k = (if k = ''mask'' then JNum (Fin 0) else data_get example_this k)"
    by blast
  show ?thesis
    by (simp add: value_after_def mask_after_def a1 a2 b1 b2 c g d mask_bits_def [of _ "example_light\<lparr>light_mask := JNum (Fin 0)\<rparr>"]
        del: set_prop.simps)
qed

section \<open>Assigning an equal value\<close>

lemma extends_refl [simp]: "extends s s"
  by (simp add: extends_def)


























end
